theory Spec2Isabelle
  imports Complex_Main "HOL-Library.Word"
begin

section \<open>JavaScript strings\<close>

text \<open>
  A JavaScript string is a sequence of UTF-16 code units. The regular expressions of
  \<^verbatim>\<open>normalize\<close> carry no \<^verbatim>\<open>u\<close> flag, so they match code unit by code unit.
  \<open>jstr\<close> embeds an ASCII literal of the source.
\<close>

type_synonym code_unit = "16 word"
type_synonym jsstring = "code_unit list"

definition jstr :: "string \<Rightarrow> jsstring" where
  "jstr s = map (\<lambda>c. of_nat (of_char c)) s"

text \<open>
  The class \<^verbatim>\<open>\s\<close> of a regular expression, which is also what \<^verbatim>\<open>trim\<close> strips:
  WhiteSpace and LineTerminator of ECMAScript (TAB, LF, VT, FF, CR, SP, NBSP, U+1680,
  U+2000 to U+200A, LS, PS, U+202F, U+205F, U+3000, BOM).
\<close>

definition is_space :: "code_unit \<Rightarrow> bool" where
  "is_space c \<longleftrightarrow>
     (0x09 \<le> c \<and> c \<le> 0x0D) \<or> c = 0x20 \<or> c = 0xA0 \<or> c = 0x1680 \<or>
     (0x2000 \<le> c \<and> c \<le> 0x200A) \<or> c = 0x2028 \<or> c = 0x2029 \<or> c = 0x202F \<or>
     c = 0x205F \<or> c = 0x3000 \<or> c = 0xFEFF"

text \<open>The ranges \<^verbatim>\<open>a-z\<close> and \<^verbatim>\<open>0-9\<close>.\<close>

definition is_lower_az :: "code_unit \<Rightarrow> bool" where
  "is_lower_az c \<longleftrightarrow> 0x61 \<le> c \<and> c \<le> 0x7A"

definition is_digit :: "code_unit \<Rightarrow> bool" where
  "is_digit c \<longleftrightarrow> 0x30 \<le> c \<and> c \<le> 0x39"

text \<open>\<^verbatim>\<open>s.replace(/[...]/g, r)\<close> for a one-character replacement \<open>r\<close>.\<close>

definition replace_class :: "(code_unit \<Rightarrow> bool) \<Rightarrow> code_unit \<Rightarrow> jsstring \<Rightarrow> jsstring" where
  "replace_class cls r s = map (\<lambda>c. if cls c then r else c) s"

text \<open>
  \<^verbatim>\<open>s.replace(/\s{2,}/g, " ")\<close>: scanning from the left, every maximal run of two or
  more white-space code units becomes one SP; a lone white-space code unit stays as it is.
\<close>

function collapse_spaces :: "jsstring \<Rightarrow> jsstring" where
  "collapse_spaces [] = []"
| "collapse_spaces (c # cs) =
     (if is_space c \<and> cs \<noteq> [] \<and> is_space (hd cs)
      then 0x20 # collapse_spaces (dropWhile is_space cs)
      else c # collapse_spaces cs)"
  by pat_completeness auto
termination
  by (relation "measure length") (auto simp: le_imp_less_Suc length_dropWhile_le)

text \<open>\<^verbatim>\<open>s.trim()\<close>.\<close>

definition trim :: "jsstring \<Rightarrow> jsstring" where
  "trim s = rev (dropWhile is_space (rev (dropWhile is_space s)))"

text \<open>\<^verbatim>\<open>hay.includes(needle)\<close>: \<open>needle\<close> occurs in \<open>hay\<close> as a contiguous block.\<close>

fun starts_with :: "jsstring \<Rightarrow> jsstring \<Rightarrow> bool" where
  "starts_with hay [] = True"
| "starts_with [] (n # ns) = False"
| "starts_with (h # hs) (n # ns) = (h = n \<and> starts_with hs ns)"

fun includes_str :: "jsstring \<Rightarrow> jsstring \<Rightarrow> bool" where
  "includes_str [] needle = (needle = [])"
| "includes_str (h # hs) needle = (starts_with (h # hs) needle \<or> includes_str hs needle)"

text \<open>\<^verbatim>\<open>s.split(",")\<close>; the empty string splits into one empty piece.\<close>

fun split_comma :: "jsstring \<Rightarrow> jsstring list" where
  "split_comma [] = [[]]"
| "split_comma (c # cs) =
     (if c = 0x2C then [] # split_comma cs
      else (case split_comma cs of [] \<Rightarrow> [[c]] | w # ws \<Rightarrow> (c # w) # ws))"

section \<open>The normalizer\<close>

text \<open>
  \<^verbatim>\<open>normalize(text)\<close> of \<^verbatim>\<open>src/api/moderate.js\<close>, step by step in the source's order.
  \<^verbatim>\<open>String.prototype.toLowerCase\<close> follows the Unicode case tables of the runtime
  and may change the length of a string; it is the parameter \<open>toLowerCase\<close>. The
  character classes are \<^verbatim>\<open>[!\<close>U+00A1\<^verbatim>\<open>1|i]\<close>, \<^verbatim>\<open>[@4]\<close>, \<^verbatim>\<open>[$5]\<close>, \<^verbatim>\<open>0\<close>, \<^verbatim>\<open>3\<close>,
  \<^verbatim>\<open>7\<close> and \<^verbatim>\<open>[^a-z0-9\s@]\<close>.
\<close>

definition normalize :: "(jsstring \<Rightarrow> jsstring) \<Rightarrow> jsstring \<Rightarrow> jsstring" where
  "normalize toLowerCase text =
     trim (collapse_spaces
       (replace_class (\<lambda>c. \<not> (is_lower_az c \<or> is_digit c \<or> is_space c \<or> c = 0x40)) 0x20
       (replace_class (\<lambda>c. c = 0x37) 0x74
       (replace_class (\<lambda>c. c = 0x33) 0x65
       (replace_class (\<lambda>c. c = 0x30) 0x6F
       (replace_class (\<lambda>c. c = 0x24 \<or> c = 0x35) 0x73
       (replace_class (\<lambda>c. c = 0x40 \<or> c = 0x34) 0x61
       (replace_class (\<lambda>c. c = 0x21 \<or> c = 0xA1 \<or> c = 0x31 \<or> c = 0x7C \<or> c = 0x69) 0x69
       (toLowerCase text)))))))))"

text \<open>
  The one property of \<^verbatim>\<open>toLowerCase\<close> that the proofs use: a string made of
  \<^verbatim>\<open>a-z\<close>, digits and white space only has no upper-case letter and is returned unchanged.
\<close>

definition fixes_lower :: "(jsstring \<Rightarrow> jsstring) \<Rightarrow> bool" where
  "fixes_lower lc \<longleftrightarrow>
     (\<forall>s. (\<forall>c\<in>set s. is_lower_az c \<or> is_digit c \<or> is_space c) \<longrightarrow> lc s = s)"

text \<open>Lower-casing of the ASCII letters alone, to run the model on ASCII inputs.\<close>

definition ascii_lower :: "jsstring \<Rightarrow> jsstring" where
  "ascii_lower s = map (\<lambda>c. if 0x41 \<le> c \<and> c \<le> 0x5A then c + 0x20 else c) s"

section \<open>Numbers\<close>

text \<open>
  A JavaScript number is NaN, an infinity or a finite double. Every finite double is a
  rational, and \<^verbatim>\<open>>=\<close> compares the values exactly, so a finite number is modelled by
  its value, and -0 is 0. What is left out is the rounding to binary64 when a decimal
  literal is read: \<open>Number\<close> below yields the value that the literal denotes
  (\<^verbatim>\<open>0.85\<close> is 17/20, \<^verbatim>\<open>1e400\<close> is finite and \<^verbatim>\<open>1e-400\<close> is not 0), where the
  runtime yields the nearest double. Which strings are numbers, which are NaN and which
  default applies does not depend on it.
\<close>

datatype jsnum = NaN | NegInf | Fin rat | PosInf

text \<open>\<^verbatim>\<open>a >= b\<close>: false as soon as one side is NaN.\<close>

fun js_ge :: "jsnum \<Rightarrow> jsnum \<Rightarrow> bool" where
  "js_ge NaN b = False"
| "js_ge a NaN = False"
| "js_ge PosInf b = True"
| "js_ge a NegInf = True"
| "js_ge NegInf b = False"
| "js_ge (Fin x) PosInf = False"
| "js_ge (Fin x) (Fin y) = (y \<le> x)"

text \<open>\<^verbatim>\<open>a === b\<close> on numbers: NaN equals nothing, itself included.\<close>

definition js_eq :: "jsnum \<Rightarrow> jsnum \<Rightarrow> bool" where
  "js_eq a b \<longleftrightarrow> a \<noteq> NaN \<and> a = b"

text \<open>
  \<^verbatim>\<open>Number(x.toFixed(4))\<close>: the nearest multiple of 1/10000, ties away from zero;
  \<^verbatim>\<open>toFixed\<close> prints a number of magnitude 1e21 or more, an infinity and NaN as
  \<^verbatim>\<open>String\<close> does, and \<^verbatim>\<open>Number\<close> reads that back.
\<close>

fun to_fixed4 :: "jsnum \<Rightarrow> jsnum" where
  "to_fixed4 (Fin x) =
     (if 10 ^ 21 \<le> \<bar>x\<bar> then Fin x
      else Fin (sgn x * of_int \<lfloor>\<bar>x\<bar> * 10000 + 1 / 2\<rfloor> / 10000))"
| "to_fixed4 n = n"

subsection \<open>\<^verbatim>\<open>Number(string)\<close>\<close>

text \<open>
  StringToNumber of ECMAScript: white space is stripped at both ends; the empty string is
  0; then a binary, octal or hexadecimal integer literal without sign, or an optionally
  signed \<^verbatim>\<open>Infinity\<close> or decimal literal with optional fraction and exponent; anything
  else is NaN.
\<close>

definition digit_val :: "code_unit \<Rightarrow> nat option" where
  "digit_val c =
     (if 0x30 \<le> c \<and> c \<le> 0x39 then Some (unat c - 48)
      else if 0x61 \<le> c \<and> c \<le> 0x66 then Some (unat c - 87)
      else if 0x41 \<le> c \<and> c \<le> 0x46 then Some (unat c - 55)
      else None)"

fun radix_value :: "nat \<Rightarrow> nat \<Rightarrow> jsstring \<Rightarrow> nat option" where
  "radix_value b acc [] = Some acc"
| "radix_value b acc (c # cs) =
     (case digit_val c of
        None \<Rightarrow> None
      | Some v \<Rightarrow> if v < b then radix_value b (acc * b + v) cs else None)"

definition digits_value :: "nat \<Rightarrow> jsstring \<Rightarrow> nat option" where
  "digits_value b ds = (if ds = [] then None else radix_value b 0 ds)"

definition non_decimal_literal :: "jsstring \<Rightarrow> nat option" where
  "non_decimal_literal s =
     (case s of
        z # p # ds \<Rightarrow>
          if z \<noteq> 0x30 then None
          else if p = 0x78 \<or> p = 0x58 then digits_value 16 ds
          else if p = 0x6F \<or> p = 0x4F then digits_value 8 ds
          else if p = 0x62 \<or> p = 0x42 then digits_value 2 ds
          else None
      | _ \<Rightarrow> None)"

definition exponent_part :: "jsstring \<Rightarrow> int option" where
  "exponent_part s =
     (case s of
        [] \<Rightarrow> Some 0
      | e # r \<Rightarrow>
          if e = 0x65 \<or> e = 0x45 then
            (case r of
               [] \<Rightarrow> None
             | g # ds \<Rightarrow>
                 if g = 0x2B then map_option int (digits_value 10 ds)
                 else if g = 0x2D then map_option (\<lambda>n. - int n) (digits_value 10 ds)
                 else map_option int (digits_value 10 r))
          else None)"

definition scale10 :: "rat \<Rightarrow> int \<Rightarrow> rat" where
  "scale10 m e = (if 0 \<le> e then m * 10 ^ nat e else m / 10 ^ nat (- e))"

definition unsigned_decimal :: "jsstring \<Rightarrow> jsnum" where
  "unsigned_decimal s =
     (if s = jstr ''Infinity'' then PosInf
      else
        let ip = takeWhile is_digit s;
            r1 = dropWhile is_digit s;
            dot = (r1 \<noteq> [] \<and> hd r1 = 0x2E);
            fp = (if dot then takeWhile is_digit (tl r1) else []);
            r2 = (if dot then dropWhile is_digit (tl r1) else r1)
        in if ip = [] \<and> fp = [] then NaN
           else
             (case (radix_value 10 0 ip, radix_value 10 0 fp, exponent_part r2) of
                (Some i, Some f, Some e) \<Rightarrow>
                  Fin (scale10 (of_nat i + of_nat f / 10 ^ length fp) e)
              | _ \<Rightarrow> NaN))"

fun negate :: "jsnum \<Rightarrow> jsnum" where
  "negate NaN = NaN"
| "negate NegInf = PosInf"
| "negate (Fin x) = Fin (- x)"
| "negate PosInf = NegInf"

definition Number :: "jsstring \<Rightarrow> jsnum" where
  "Number s =
     (let t = trim s in
      if t = [] then Fin 0
      else
        (case non_decimal_literal t of
           Some n \<Rightarrow> Fin (of_nat n)
         | None \<Rightarrow>
             if hd t = 0x2B then unsigned_decimal (tl t)
             else if hd t = 0x2D then negate (unsigned_decimal (tl t))
             else unsigned_decimal t))"

section \<open>Values\<close>

text \<open>
  The values a request body parsed from JSON can hold, and \<^verbatim>\<open>undefined\<close> for an absent
  body or property. An object is the list of its own properties, each key once.
\<close>

datatype jsval =
    JUndefined
  | JNull
  | JBool bool
  | JNum jsnum
  | JStr jsstring
  | JArr "jsval list"
  | JObj "(jsstring \<times> jsval) list"

text \<open>ToBoolean, as \<^verbatim>\<open>!x\<close>, \<^verbatim>\<open>x || y\<close> and \<^verbatim>\<open>x && y\<close> apply it.\<close>

fun truthy :: "jsval \<Rightarrow> bool" where
  "truthy JUndefined = False"
| "truthy JNull = False"
| "truthy (JBool b) = b"
| "truthy (JNum n) = (n \<noteq> NaN \<and> n \<noteq> Fin 0)"
| "truthy (JStr s) = (s \<noteq> [])"
| "truthy (JArr xs) = True"
| "truthy (JObj ps) = True"

fun typeof :: "jsval \<Rightarrow> string" where
  "typeof JUndefined = ''undefined''"
| "typeof JNull = ''object''"
| "typeof (JBool b) = ''boolean''"
| "typeof (JNum n) = ''number''"
| "typeof (JStr s) = ''string''"
| "typeof (JArr xs) = ''object''"
| "typeof (JObj ps) = ''object''"

text \<open>What the handler's pipeline can throw.\<close>

datatype exn = TypeError | Thrown jsstring

text \<open>
  Reading the property \<open>k\<close> of \<open>v\<close>, as the destructuring pattern does, for the three
  names the handler reads (\<^verbatim>\<open>text\<close>, \<^verbatim>\<open>fromUser\<close>, \<^verbatim>\<open>botName\<close>). Destructuring
  \<^verbatim>\<open>undefined\<close> or \<^verbatim>\<open>null\<close> throws a TypeError. No prototype has the three names, so
  otherwise only an own property of an object answers.
\<close>

fun get_prop :: "jsval \<Rightarrow> jsstring \<Rightarrow> exn + jsval" where
  "get_prop JUndefined k = Inl TypeError"
| "get_prop JNull k = Inl TypeError"
| "get_prop (JObj ps) k = Inr (case map_of ps k of None \<Rightarrow> JUndefined | Some v \<Rightarrow> v)"
| "get_prop v k = Inr JUndefined"

text \<open>The default of a destructuring pattern, \<^verbatim>\<open>{ k = d }\<close>: taken for \<^verbatim>\<open>undefined\<close> only.\<close>

definition or_default :: "jsval \<Rightarrow> jsval \<Rightarrow> jsval" where
  "or_default v d = (if v = JUndefined then d else v)"

text \<open>
  \<^verbatim>\<open>obj[k] = v\<close> for a number \<open>v\<close>, on an object that the handler builds from
  \<^verbatim>\<open>{}\<close>. The list holds the own properties in the order in which \<^verbatim>\<open>JSON.stringify\<close>
  lists them: the array indices (canonical decimal numerals below \<open>2^32 - 1\<close>) ascending,
  then the other keys in the order of their creation. Assigning a number to
  \<^verbatim>\<open>__proto__\<close> reaches the setter of \<^verbatim>\<open>Object.prototype\<close>, which ignores it.
\<close>

definition array_index :: "jsstring \<Rightarrow> nat option" where
  "array_index k =
     (if k = [] \<or> (hd k = 0x30 \<and> tl k \<noteq> []) then None
      else (case radix_value 10 0 k of
              None \<Rightarrow> None
            | Some n \<Rightarrow> if n < 2 ^ 32 - 1 then Some n else None))"

fun replace_prop ::
  "(jsstring \<times> jsval) list \<Rightarrow> jsstring \<Rightarrow> jsval \<Rightarrow> (jsstring \<times> jsval) list" where
  "replace_prop [] k v = []"
| "replace_prop ((k', v') # ps) k v =
     (if k' = k then (k, v) # ps else (k', v') # replace_prop ps k v)"

fun insert_index ::
  "nat \<Rightarrow> jsstring \<times> jsval \<Rightarrow> (jsstring \<times> jsval) list \<Rightarrow> (jsstring \<times> jsval) list" where
  "insert_index n kv [] = [kv]"
| "insert_index n kv (p # ps) =
     (case array_index (fst p) of
        None \<Rightarrow> kv # p # ps
      | Some m \<Rightarrow> if m < n then p # insert_index n kv ps else kv # p # ps)"

definition set_prop ::
  "(jsstring \<times> jsval) list \<Rightarrow> jsstring \<Rightarrow> jsval \<Rightarrow> (jsstring \<times> jsval) list" where
  "set_prop ps k v =
     (if k = jstr ''__proto__'' then ps
      else if k \<in> fst ` set ps then replace_prop ps k v
      else (case array_index k of
              None \<Rightarrow> ps @ [(k, v)]
            | Some n \<Rightarrow> insert_index n (k, v) ps))"

text \<open>
  ToString, as the template literal \<^verbatim>\<open>`${v}`\<close> applies it. A number is printed by the
  runtime (\<open>numberToString\<close>). An array joins its elements with commas, \<^verbatim>\<open>null\<close> and
  \<^verbatim>\<open>undefined\<close> printing as nothing. An object parsed from JSON prints as
  \<^verbatim>\<open>[object Object]\<close>, unless it has an own property \<^verbatim>\<open>toString\<close>: that one is not
  callable, \<^verbatim>\<open>valueOf\<close> returns no primitive, and the conversion throws a TypeError.
\<close>

fun to_string :: "(jsnum \<Rightarrow> jsstring) \<Rightarrow> jsval \<Rightarrow> exn + jsstring"
  and join_elements :: "(jsnum \<Rightarrow> jsstring) \<Rightarrow> jsval list \<Rightarrow> exn + jsstring" where
  "to_string numberToString JUndefined = Inr (jstr ''undefined'')"
| "to_string numberToString JNull = Inr (jstr ''null'')"
| "to_string numberToString (JBool b) = Inr (jstr (if b then ''true'' else ''false''))"
| "to_string numberToString (JNum n) = Inr (numberToString n)"
| "to_string numberToString (JStr s) = Inr s"
| "to_string numberToString (JArr xs) = join_elements numberToString xs"
| "to_string numberToString (JObj ps) =
     (if jstr ''toString'' \<in> fst ` set ps then Inl TypeError
      else Inr (jstr ''[object Object]''))"
| "join_elements numberToString [] = Inr []"
| "join_elements numberToString (x # xs) =
     (case (if x = JUndefined \<or> x = JNull then Inr [] else to_string numberToString x) of
        Inl e \<Rightarrow> Inl e
      | Inr s \<Rightarrow>
          if xs = [] then Inr s
          else (case join_elements numberToString xs of
                  Inl e \<Rightarrow> Inl e
                | Inr r \<Rightarrow> Inr (s @ 0x2C # r)))"

section \<open>Configuration\<close>

text \<open>\<^verbatim>\<open>process.env\<close>, and \<^verbatim>\<open>process.env.NAME || "default"\<close>: unset and empty both default.\<close>

type_synonym environment = "string \<Rightarrow> jsstring option"

definition env_or :: "environment \<Rightarrow> string \<Rightarrow> string \<Rightarrow> jsstring" where
  "env_or env name dflt =
     (case env name of None \<Rightarrow> jstr dflt | Some v \<Rightarrow> if v = [] then jstr dflt else v)"

text \<open>\<^verbatim>\<open>.split(",").map(s => s.trim()).filter(Boolean)\<close>.\<close>

definition split_list :: "jsstring \<Rightarrow> jsstring list" where
  "split_list s = filter (\<lambda>w. w \<noteq> []) (map trim (split_comma s))"

definition default_labels :: "jsstring list" where
  "default_labels =
     [jstr ''identity_attack'', jstr ''insult'', jstr ''obscene'', jstr ''sexual_explicit'',
      jstr ''threat'', jstr ''severe_toxicity'']"

record config =
  THRESH :: jsnum
  LABELS :: "jsstring list"
  CORS_ALLOW_ORIGIN :: jsstring
  CUSTOM_WORDS :: "jsstring list"

definition load_config :: "environment \<Rightarrow> config" where
  "load_config env =
     \<lparr> THRESH = Number (env_or env ''TOXICITY_THRESHOLD'' ''0.85''),
       LABELS = split_list (env_or env ''TOXICITY_LABELS''
         ''identity_attack,insult,obscene,sexual_explicit,threat,severe_toxicity''),
       CORS_ALLOW_ORIGIN = env_or env ''CORS_ALLOW_ORIGIN'' ''*'',
       CUSTOM_WORDS = split_list (env_or env ''FOUL_CUSTOM_WORDS'' []) \<rparr>"

section \<open>Collaborators and state\<close>

text \<open>
  One element of what \<^verbatim>\<open>model.classify\<close> resolves to: a label and the list
  \<^verbatim>\<open>results\<close>, of which the handler reads \<^verbatim>\<open>results?.[0]?.probabilities?.[1]\<close>. Each
  result is given by its \<^verbatim>\<open>probabilities\<close>; \<open>None\<close> stands for a missing (nullish) part.
\<close>

record prediction =
  label :: jsstring
  results :: "jsnum list option list option"

type_synonym classifier = "jsstring list \<Rightarrow> exn + prediction list"

text \<open>
  What the handler calls and this repository does not define: the runtime's
  \<^verbatim>\<open>toLowerCase\<close> and number printing, \<^verbatim>\<open>leo.check\<close> of the lexicon prepared at start-up
  with the custom words, and \<^verbatim>\<open>toxicity.load\<close>, which fails or yields a classifier.
\<close>

record deps =
  toLowerCase :: "jsstring \<Rightarrow> jsstring"
  numberToString :: "jsnum \<Rightarrow> jsstring"
  leo_check :: "jsstring list \<Rightarrow> jsstring \<Rightarrow> bool"
  toxicity_load :: "jsnum \<Rightarrow> jsstring list \<Rightarrow> exn + classifier"

text \<open>The calls to the detectors and to \<^verbatim>\<open>console.error\<close>, in the order they are made.\<close>

datatype event =
    LeoCheck jsstring
  | ToxicityLoad jsnum "jsstring list"
  | Classify "jsstring list"
  | ConsoleError exn

text \<open>The module's variable \<^verbatim>\<open>modelPromise\<close>, settled, and the calls made so far.\<close>

record state =
  modelPromise :: "(exn + classifier) option"
  trace :: "event list"

record request =
  req_method :: jsstring
  req_body :: jsval

text \<open>
  The response: the status (200 unless \<^verbatim>\<open>res.status\<close> sets it), the headers set, and
  the value given to \<^verbatim>\<open>res.json\<close> (\<open>None\<close> after \<^verbatim>\<open>res.end()\<close>).
\<close>

record response =
  status :: nat
  headers :: "(string \<times> jsstring) list"
  payload :: "jsval option"

section \<open>The handler\<close>

definition getModel :: "deps \<Rightarrow> config \<Rightarrow> state \<Rightarrow> (exn + classifier) \<times> state" where
  "getModel d cfg st =
     (case modelPromise st of
        None \<Rightarrow>
          (let m = toxicity_load d (THRESH cfg) (LABELS cfg)
           in (m, st\<lparr>modelPromise := Some m,
                     trace := trace st @ [ToxicityLoad (THRESH cfg) (LABELS cfg)]\<rparr>))
      | Some m \<Rightarrow> (m, st))"

definition setCors :: "config \<Rightarrow> (string \<times> jsstring) list" where
  "setCors cfg =
     [(''Access-Control-Allow-Origin'', CORS_ALLOW_ORIGIN cfg),
      (''Access-Control-Allow-Methods'', jstr ''POST,OPTIONS''),
      (''Access-Control-Allow-Headers'', jstr ''Content-Type, Authorization'')]"

definition json_error :: "string \<Rightarrow> jsval" where
  "json_error code = JObj [(jstr ''error'', JStr (jstr code))]"

definition skipped_body :: jsval where
  "skipped_body =
     JObj [(jstr ''foul'', JBool False), (jstr ''skipped'', JBool True),
           (jstr ''reason'', JStr (jstr ''self_message''))]"

text \<open>\<^verbatim>\<open>p.results?.[0]?.probabilities?.[1] ?? 0\<close>.\<close>

definition score_of :: "prediction \<Rightarrow> jsnum" where
  "score_of p =
     (case results p of
        None \<Rightarrow> Fin 0
      | Some [] \<Rightarrow> Fin 0
      | Some (r # rs) \<Rightarrow>
          (case r of
             None \<Rightarrow> Fin 0
           | Some probabilities \<Rightarrow>
               if 1 < length probabilities then probabilities ! 1 else Fin 0))"

text \<open>The loop \<^verbatim>\<open>for (const p of preds)\<close> over \<^verbatim>\<open>scores\<close> and \<^verbatim>\<open>toxicHit\<close>.\<close>

fun score_loop ::
  "config \<Rightarrow> prediction list \<Rightarrow> (jsstring \<times> jsval) list \<Rightarrow> bool \<Rightarrow>
     (jsstring \<times> jsval) list \<times> bool" where
  "score_loop cfg [] scores toxicHit = (scores, toxicHit)"
| "score_loop cfg (p # ps) scores toxicHit =
     (let score = score_of p
      in score_loop cfg ps
           (set_prop scores (label p) (JNum (to_fixed4 score)))
           (if label p \<in> set (LABELS cfg) \<and> js_ge score (THRESH cfg) then True
            else toxicHit))"

text \<open>
  The anti-loop condition
  \<^verbatim>\<open>botName && fromUser && `${fromUser}`.toLowerCase().includes(`${botName}`.toLowerCase())\<close>.
\<close>

definition self_message :: "deps \<Rightarrow> jsval \<Rightarrow> jsval \<Rightarrow> exn + bool" where
  "self_message d botName fromUser =
     (if truthy botName \<and> truthy fromUser then
        (case to_string (numberToString d) fromUser of
           Inl err \<Rightarrow> Inl err
         | Inr f \<Rightarrow>
             (case to_string (numberToString d) botName of
                Inl err \<Rightarrow> Inl err
              | Inr b \<Rightarrow> Inr (includes_str (toLowerCase d f) (toLowerCase d b))))
      else Inr False)"

text \<open>The two detectors and the merge, from \<^verbatim>\<open>const norm = normalize(text)\<close> on.\<close>

definition detect ::
  "deps \<Rightarrow> config \<Rightarrow> state \<Rightarrow> jsstring \<Rightarrow> (exn + nat \<times> jsval) \<times> state" where
  "detect d cfg st text =
     (let norm = normalize (toLowerCase d) text;
          lexiconProfane = leo_check d (CUSTOM_WORDS cfg) norm;
          st1 = st\<lparr>trace := trace st @ [LeoCheck norm]\<rparr>;
          (loaded, st2) = getModel d cfg st1
      in case loaded of
           Inl err \<Rightarrow> (Inl err, st2)
         | Inr model \<Rightarrow>
             (let st3 = st2\<lparr>trace := trace st2 @ [Classify [norm]]\<rparr>
              in case model [norm] of
                   Inl err \<Rightarrow> (Inl err, st3)
                 | Inr preds \<Rightarrow>
                     (let (scores, toxicHit) = score_loop cfg preds [] False;
                          foul = (lexiconProfane \<or> toxicHit)
                      in (Inr (200,
                            JObj [(jstr ''foul'', JBool foul),
                                  (jstr ''input'', JStr text),
                                  (jstr ''norm'', JStr norm),
                                  (jstr ''reasons'',
                                   JObj [(jstr ''lexiconProfanity'', JBool lexiconProfane),
                                         (jstr ''toxicityScores'', JObj scores),
                                         (jstr ''threshold'', JNum (THRESH cfg)),
                                         (jstr ''labels'', JArr (map JStr (LABELS cfg)))])]),
                          st3))))"

text \<open>\<^verbatim>\<open>req.body || {}\<close>.\<close>

definition body_object :: "jsval \<Rightarrow> jsval" where
  "body_object b = (if truthy b then b else JObj [])"

text \<open>
  A variable of \<^verbatim>\<open>const { text = "", fromUser = "", botName = "" } = req.body || {}\<close>.
\<close>

definition destructured :: "jsval \<Rightarrow> string \<Rightarrow> exn + jsval" where
  "destructured b k =
     (case get_prop (body_object b) (jstr k) of
        Inl err \<Rightarrow> Inl err
      | Inr v \<Rightarrow> Inr (or_default v (JStr [])))"

text \<open>
  The body of the \<^verbatim>\<open>try\<close> block: an exception, or the status and the JSON value of the
  response. In the last branch \<open>text\<close> is a string, by the test before it.
\<close>

definition try_block ::
  "deps \<Rightarrow> config \<Rightarrow> state \<Rightarrow> jsval \<Rightarrow> (exn + nat \<times> jsval) \<times> state" where
  "try_block d cfg st b =
     (case destructured b ''text'' of
        Inl err \<Rightarrow> (Inl err, st)
      | Inr text \<Rightarrow>
     (case destructured b ''fromUser'' of
        Inl err \<Rightarrow> (Inl err, st)
      | Inr fromUser \<Rightarrow>
     (case destructured b ''botName'' of
        Inl err \<Rightarrow> (Inl err, st)
      | Inr botName \<Rightarrow>
         if \<not> truthy text \<or> typeof text \<noteq> ''string'' then
           (Inr (400, json_error ''text_required''), st)
         else
           (case self_message d botName fromUser of
              Inl err \<Rightarrow> (Inl err, st)
            | Inr True \<Rightarrow> (Inr (200, skipped_body), st)
            | Inr False \<Rightarrow>
                (case text of
                   JStr t \<Rightarrow> detect d cfg st t
                 | _ \<Rightarrow> (Inl TypeError, st))))))"

definition handler :: "deps \<Rightarrow> config \<Rightarrow> state \<Rightarrow> request \<Rightarrow> response \<times> state" where
  "handler d cfg st req =
     (if req_method req = jstr ''OPTIONS'' then
        (\<lparr>status = 204, headers = setCors cfg, payload = None\<rparr>, st)
      else if req_method req \<noteq> jstr ''POST'' then
        (\<lparr>status = 405, headers = setCors cfg,
          payload = Some (json_error ''method_not_allowed'')\<rparr>, st)
      else
        (case try_block d cfg st (req_body req) of
           (Inr (code, json), st') \<Rightarrow>
             (\<lparr>status = code, headers = setCors cfg, payload = Some json\<rparr>, st')
         | (Inl err, st') \<Rightarrow>
             (\<lparr>status = 500, headers = setCors cfg,
               payload = Some (json_error ''moderation_failed'')\<rparr>,
              st'\<lparr>trace := trace st' @ [ConsoleError err]\<rparr>)))"

text \<open>A field of the JSON value of a response.\<close>

definition response_field :: "response \<Rightarrow> string \<Rightarrow> jsval" where
  "response_field r k =
     (case payload r of
        Some (JObj ps) \<Rightarrow> (case map_of ps (jstr k) of None \<Rightarrow> JUndefined | Some v \<Rightarrow> v)
      | _ \<Rightarrow> JUndefined)"

subsection \<open>Stand-ins for the collaborators, to run the handler on concrete requests\<close>

text \<open>A lexicon that holds the word \<^verbatim>\<open>idiot\<close> and the custom words.\<close>

definition stub_lexicon :: "jsstring list \<Rightarrow> jsstring \<Rightarrow> bool" where
  "stub_lexicon custom s = list_ex (includes_str s) (jstr ''idiot'' # custom)"

text \<open>A classifier that gives every default label the same toxic probability \<open>x\<close>.\<close>

definition flat_prediction :: "jsnum \<Rightarrow> jsstring \<Rightarrow> prediction" where
  "flat_prediction x l = \<lparr>label = l, results = Some [Some [Fin 0, x]]\<rparr>"

definition flat_classifier :: "jsnum \<Rightarrow> classifier" where
  "flat_classifier x texts = Inr (map (flat_prediction x) default_labels)"

definition failing_classifier :: classifier where
  "failing_classifier texts = Inl (Thrown (jstr ''tensor shape mismatch''))"

text \<open>Number printing for the stand-in runtime: the non-negative integers and the non-finite.\<close>

function dec_digits :: "nat \<Rightarrow> jsstring" where
  "dec_digits n =
     (if n < 10 then [of_nat (48 + n)] else dec_digits (n div 10) @ [of_nat (48 + n mod 10)])"
  by pat_completeness auto
termination
  by (relation "measure id") auto

fun print_number :: "jsnum \<Rightarrow> jsstring" where
  "print_number NaN = jstr ''NaN''"
| "print_number PosInf = jstr ''Infinity''"
| "print_number NegInf = jstr ''-Infinity''"
| "print_number (Fin x) = dec_digits (nat \<lfloor>x\<rfloor>)"

definition stub_deps :: "(exn + classifier) \<Rightarrow> deps" where
  "stub_deps loaded =
     \<lparr>toLowerCase = ascii_lower, numberToString = print_number,
      leo_check = stub_lexicon, toxicity_load = (\<lambda>threshold labels. loaded)\<rparr>"

definition fresh :: state where
  "fresh = \<lparr>modelPromise = None, trace = []\<rparr>"

definition post :: "jsval \<Rightarrow> request" where
  "post b = \<lparr>req_method = jstr ''POST'', req_body = b\<rparr>"

text \<open>Requests and collaborators of the examples below.\<close>

definition insulting_request :: request where
  "insulting_request = post (JObj [(jstr ''text'', JStr (jstr ''You are such an idiot.''))])"

definition polite_request :: request where
  "polite_request = post (JObj [(jstr ''text'', JStr (jstr ''h3ll0 w0rld''))])"

definition bot_request :: request where
  "bot_request =
     post (JObj [(jstr ''text'', JStr (jstr ''You are such an idiot.'')),
                 (jstr ''fromUser'', JStr (jstr ''The-ModBot'')),
                 (jstr ''botName'', JStr (jstr ''modbot''))])"

definition bot_request_empty_text :: request where
  "bot_request_empty_text =
     post (JObj [(jstr ''text'', JStr []),
                 (jstr ''fromUser'', JStr (jstr ''The-ModBot'')),
                 (jstr ''botName'', JStr (jstr ''modbot''))])"

definition numeric_text_request :: request where
  "numeric_text_request = post (JObj [(jstr ''text'', JNum (Fin 5))])"

definition calm_deps :: deps where
  "calm_deps = stub_deps (Inr (flat_classifier (Fin (1 / 100))))"

definition unloadable_deps :: deps where
  "unloadable_deps = stub_deps (Inl (Thrown (jstr ''model download failed'')))"

definition default_cfg :: config where
  "default_cfg = load_config Map.empty"

section \<open>Auxiliary notions\<close>

subsection \<open>Auxiliary notions for the proofs about \<open>normalize\<close>\<close>

text \<open>The seven replacements, seen on one code unit.\<close>

definition rc :: "(code_unit \<Rightarrow> bool) \<Rightarrow> code_unit \<Rightarrow> code_unit \<Rightarrow> code_unit" where
  "rc cls r c = (if cls c then r else c)"

definition subst_chain :: "code_unit \<Rightarrow> code_unit" where
  "subst_chain c =
       rc (\<lambda>c. \<not> (is_lower_az c \<or> is_digit c \<or> is_space c \<or> c = 0x40)) 0x20
       (rc (\<lambda>c. c = 0x37) 0x74
       (rc (\<lambda>c. c = 0x33) 0x65
       (rc (\<lambda>c. c = 0x30) 0x6F
       (rc (\<lambda>c. c = 0x24 \<or> c = 0x35) 0x73
       (rc (\<lambda>c. c = 0x40 \<or> c = 0x34) 0x61
       (rc (\<lambda>c. c = 0x21 \<or> c = 0xA1 \<or> c = 0x31 \<or> c = 0x7C \<or> c = 0x69) 0x69 c))))))"

text \<open>The code units that a normalized string can hold: \<^verbatim>\<open>a-z\<close>, 2, 6, 8, 9, white space.\<close>

definition stable :: "code_unit \<Rightarrow> bool" where
  "stable c \<longleftrightarrow>
     is_lower_az c \<or> c = 0x32 \<or> c = 0x36 \<or> c = 0x38 \<or> c = 0x39 \<or> is_space c"

text \<open>No two white-space code units in a row.\<close>

fun no_run :: "jsstring \<Rightarrow> bool" where
  "no_run [] = True"
| "no_run [c] = True"
| "no_run (c # d # cs) = (\<not> (is_space c \<and> is_space d) \<and> no_run (d # cs))"

section \<open>Properties of the string operations\<close>

text \<open>\<open>includes_str\<close> is containment as a contiguous block.\<close>

lemma starts_with_iff: "starts_with hay needle \<longleftrightarrow> (\<exists>s. hay = needle @ s)"
  by (induction hay needle rule: starts_with.induct) auto

lemma includes_str_iff: "includes_str hay needle \<longleftrightarrow> (\<exists>p s. hay = p @ needle @ s)"
proof (induction hay)
  case Nil
  show ?case by simp
next
  case (Cons h hs)
  have "(\<exists>p s. h # hs = p @ needle @ s) \<longleftrightarrow>
        (\<exists>s. h # hs = needle @ s) \<or> (\<exists>p s. hs = p @ needle @ s)"
    by (auto simp: Cons_eq_append_conv)
  then show ?case using Cons by (simp add: starts_with_iff)
qed

section \<open>Properties of the normalizer\<close>

lemma replace_class_map: "replace_class cls r s = map (rc cls r) s"
  by (simp add: replace_class_def rc_def)

lemma normalize_alt:
  "normalize lc x = trim (collapse_spaces (map subst_chain (lc x)))"
  unfolding normalize_def replace_class_map map_map comp_def subst_chain_def ..

lemma is_digit_cases:
  "is_digit c \<longleftrightarrow> c = 0x30 \<or> c = 0x31 \<or> c = 0x32 \<or> c = 0x33 \<or> c = 0x34 \<or>
     c = 0x35 \<or> c = 0x36 \<or> c = 0x37 \<or> c = 0x38 \<or> c = 0x39"
  unfolding is_digit_def word_le_nat_alt word_unat_eq_iff by simp arith

lemma subst_chain_stable: "stable (subst_chain c)"
proof -
  define c1 where
    "c1 = rc (\<lambda>c. c = 0x21 \<or> c = 0xA1 \<or> c = 0x31 \<or> c = 0x7C \<or> c = 0x69) 0x69 c"
  define c2 where "c2 = rc (\<lambda>c. c = 0x40 \<or> c = 0x34) 0x61 c1"
  define c3 where "c3 = rc (\<lambda>c. c = 0x24 \<or> c = 0x35) 0x73 c2"
  define c4 where "c4 = rc (\<lambda>c. c = 0x30) 0x6F c3"
  define c5 where "c5 = rc (\<lambda>c. c = 0x33) 0x65 c4"
  define c6 where "c6 = rc (\<lambda>c. c = 0x37) 0x74 c5"
  have 1: "c1 \<noteq> 0x31" by (simp add: c1_def rc_def)
  have 2: "c2 \<notin> {0x31, 0x40, 0x34}" using 1 by (simp add: c2_def rc_def)
  have 3: "c3 \<notin> {0x31, 0x40, 0x34, 0x35}" using 2 by (simp add: c3_def rc_def)
  have 4: "c4 \<notin> {0x31, 0x40, 0x34, 0x35, 0x30}" using 3 by (simp add: c4_def rc_def)
  have 5: "c5 \<notin> {0x31, 0x40, 0x34, 0x35, 0x30, 0x33}" using 4 by (simp add: c5_def rc_def)
  have 6: "c6 \<notin> {0x31, 0x40, 0x34, 0x35, 0x30, 0x33, 0x37}"
    using 5 by (simp add: c6_def rc_def)
  have "stable (rc (\<lambda>c. \<not> (is_lower_az c \<or> is_digit c \<or> is_space c \<or> c = 0x40)) 0x20 c6)"
    using 6 by (auto simp: rc_def stable_def is_digit_cases is_space_def)
  then show ?thesis
    by (simp add: subst_chain_def c1_def c2_def c3_def c4_def c5_def c6_def)
qed

lemma stable_fixed: "stable c \<Longrightarrow> subst_chain c = c"
proof -
  assume s: "stable c"
  have d: "is_lower_az c \<or> is_digit c \<or> is_space c"
    using s by (auto simp: stable_def is_digit_cases)
  have "c \<notin> {0x21, 0xA1, 0x31, 0x7C, 0x40, 0x34, 0x24, 0x35, 0x30, 0x33, 0x37}"
    using s by (auto simp: stable_def is_lower_az_def is_space_def)
  then show ?thesis using d
    by (auto simp: subst_chain_def rc_def)
qed

lemma no_run_Cons:
  "no_run (c # s) \<longleftrightarrow> (s = [] \<or> \<not> (is_space c \<and> is_space (hd s))) \<and> no_run s"
  by (cases s) auto

lemma collapse_Nil_iff: "collapse_spaces s = [] \<longleftrightarrow> s = []"
  by (cases s) auto

lemma hd_collapse: "s \<noteq> [] \<Longrightarrow> is_space (hd (collapse_spaces s)) = is_space (hd s)"
  by (cases s) (auto simp: is_space_def)

lemma collapse_no_run: "no_run (collapse_spaces s)"
proof (induction s rule: collapse_spaces.induct)
  case 1
  show ?case by simp
next
  case (2 c cs)
  show ?case
  proof (cases "is_space c \<and> cs \<noteq> [] \<and> is_space (hd cs)")
    case True
    define t where "t = dropWhile is_space cs"
    have ih: "no_run (collapse_spaces t)"
      unfolding t_def using True by (rule "2.IH"(1))
    have "t \<noteq> [] \<Longrightarrow> \<not> is_space (hd t)"
      unfolding t_def by (rule hd_dropWhile)
    then have "t \<noteq> [] \<Longrightarrow> \<not> is_space (hd (collapse_spaces t))"
      by (simp add: hd_collapse)
    with ih have "no_run (0x20 # collapse_spaces t)"
      by (auto simp: no_run_Cons collapse_Nil_iff)
    with True show ?thesis by (simp add: t_def)
  next
    case False
    with 2 show ?thesis
      by (auto simp: no_run_Cons collapse_Nil_iff hd_collapse)
  qed
qed

lemma no_run_fixed: "no_run s \<Longrightarrow> collapse_spaces s = s"
  by (induction s rule: collapse_spaces.induct) (auto simp: no_run_Cons)

lemma set_collapse: "set (collapse_spaces s) \<subseteq> insert 0x20 (set s)"
proof (induction s rule: collapse_spaces.induct)
  case 1
  show ?case by simp
next
  case (2 c cs)
  then show ?case by (auto dest: set_dropWhileD)
qed

lemma no_run_append: "no_run (xs @ ys) \<Longrightarrow> no_run xs \<and> no_run ys"
  by (induction xs rule: no_run.induct) (auto simp: no_run_Cons)

lemma trim_infix:
  "s = takeWhile is_space s @ trim s @ rev (takeWhile is_space (rev (dropWhile is_space s)))"
proof -
  have "dropWhile is_space s = trim s @ rev (takeWhile is_space (rev (dropWhile is_space s)))"
    unfolding trim_def by (metis rev_append rev_rev_ident takeWhile_dropWhile_id)
  then show ?thesis by (metis takeWhile_dropWhile_id)
qed

lemma no_run_trim: "no_run s \<Longrightarrow> no_run (trim s)"
  by (metis trim_infix no_run_append)

lemma set_trim: "set (trim s) \<subseteq> set s"
  by (auto simp: trim_def dest!: set_dropWhileD)

lemma trim_fixed:
  assumes "s = [] \<or> (\<not> is_space (hd s) \<and> \<not> is_space (last s))"
  shows "trim s = s"
proof (cases "s = []")
  case True
  then show ?thesis by (simp add: trim_def)
next
  case False
  with assms have a: "\<not> is_space (hd s)" and b: "\<not> is_space (last s)" by auto
  from False a have 1: "dropWhile is_space s = s"
    by (cases s) auto
  from False b have 2: "dropWhile is_space (rev s) = rev s"
    by (cases "rev s") (auto simp: last_rev hd_rev)
  show ?thesis by (simp add: trim_def 1 2)
qed

lemma trim_ends:
  "trim s = [] \<or> (\<not> is_space (hd (trim s)) \<and> \<not> is_space (last (trim s)))"
proof (cases "trim s = []")
  case True
  then show ?thesis by simp
next
  case False
  define t where "t = dropWhile is_space s"
  have ts: "trim s = rev (dropWhile is_space (rev t))" by (simp add: trim_def t_def)
  have tne: "t \<noteq> []" using False ts by auto
  have h: "\<not> is_space (hd t)" using tne unfolding t_def by (rule hd_dropWhile)
  have l: "\<not> is_space (last (trim s))"
    using False hd_dropWhile[of is_space "rev t"] by (simp add: ts last_rev)
  have "t = trim s @ rev (takeWhile is_space (rev t))"
    unfolding ts by (metis rev_append rev_rev_ident takeWhile_dropWhile_id)
  then have "hd t = hd (trim s)" using False by (metis hd_append2)
  with h l show ?thesis by simp
qed

lemma normalize_stable: "c \<in> set (normalize lc x) \<Longrightarrow> stable c"
proof -
  assume "c \<in> set (normalize lc x)"
  then have "c \<in> insert 0x20 (set (map subst_chain (lc x)))"
    using set_trim set_collapse unfolding normalize_alt by blast
  then show "stable c"
    by (auto simp: subst_chain_stable) (simp add: stable_def is_space_def)
qed

lemma ascii_lower_fixes: "fixes_lower ascii_lower"
proof -
  have "\<not> (0x41 \<le> c \<and> c \<le> 0x5A)" if "is_lower_az c \<or> is_digit c \<or> is_space c" for c
    using that
    unfolding is_lower_az_def is_digit_def is_space_def word_le_nat_alt word_unat_eq_iff
    by simp arith
  then have "\<forall>c\<in>set s. is_lower_az c \<or> is_digit c \<or> is_space c \<Longrightarrow> ascii_lower s = s" for s
    unfolding ascii_lower_def by (intro map_idI) auto
  then show ?thesis by (simp add: fixes_lower_def)
qed

lemmas eval_number = Number_def unsigned_decimal_def non_decimal_literal_def
  exponent_part_def digits_value_def digit_val_def scale10_def Let_def

lemmas eval_string =
  jstr_def ascii_lower_def replace_class_def trim_def is_space_def is_lower_az_def is_digit_def

text \<open>
  C2. \<open>normalize\<close> is a total function of its argument that is idempotent:
  \<open>normalize (normalize x) = normalize x\<close> for every string \<open>x\<close>, and the empty string
  is normalized to the empty string. (Totality is that of a HOL function defined by
  terminating recursion; the runtime's \<^verbatim>\<open>toLowerCase\<close> enters through the one
  property \<open>fixes_lower\<close>.)
\<close>

theorem normalize_idempotent:
  assumes lc: "fixes_lower lc"
  shows "normalize lc (normalize lc x) = normalize lc x \<and> normalize lc [] = []"
proof
  define r where "r = normalize lc x"
  have st: "\<forall>c\<in>set r. stable c"
    unfolding r_def by (auto intro: normalize_stable)
  then have "\<forall>c\<in>set r. is_lower_az c \<or> is_digit c \<or> is_space c"
    by (auto simp: stable_def is_digit_cases)
  then have 1: "lc r = r" using lc by (simp add: fixes_lower_def)
  have 2: "map subst_chain r = r" using st by (simp add: map_idI stable_fixed)
  have "no_run r" unfolding r_def normalize_alt by (rule no_run_trim) (rule collapse_no_run)
  then have 3: "collapse_spaces r = r" by (rule no_run_fixed)
  have 4: "trim r = r" unfolding r_def normalize_alt by (rule trim_fixed) (rule trim_ends)
  show "normalize lc (normalize lc x) = normalize lc x"
    unfolding r_def[symmetric] by (simp add: normalize_alt 1 2 3 4)
next
  have "lc [] = []" using lc by (simp add: fixes_lower_def)
  then show "normalize lc [] = []" by (simp add: normalize_alt trim_def)
qed

theorem normalize_idempotent_witness:
  "fixes_lower ascii_lower \<and>
   normalize ascii_lower (jstr ''  H3ll0,   W0rld! '') = jstr ''hello worldi'' \<and>
   normalize ascii_lower (normalize ascii_lower (jstr ''  H3ll0,   W0rld! '')) =
     normalize ascii_lower (jstr ''  H3ll0,   W0rld! '') \<and>
   normalize ascii_lower [] = []"
proof -
  have "normalize ascii_lower (jstr ''  H3ll0,   W0rld! '') = jstr ''hello worldi''"
    by (simp add: normalize_def eval_string)
  then show ?thesis
    using ascii_lower_fixes
      normalize_idempotent [OF ascii_lower_fixes, of "jstr ''  H3ll0,   W0rld! ''"]
    by simp
qed

text \<open>
  C8. For every input string, the output of \<open>normalize\<close> holds no \<^verbatim>\<open>@\<close> (code unit
  0x40): the rule \<^verbatim>\<open>[@4]\<close> to \<^verbatim>\<open>a\<close> runs before the filter \<^verbatim>\<open>[^a-z0-9\s@]\<close>, so the
  filter never sees an \<^verbatim>\<open>@\<close> to keep. This holds whatever \<^verbatim>\<open>toLowerCase\<close> returns.
\<close>

theorem normalize_no_at_sign: "0x40 \<notin> set (normalize lc x)"
proof
  assume "0x40 \<in> set (normalize lc x)"
  then have "stable 0x40" by (rule normalize_stable)
  then show False by (simp add: stable_def is_lower_az_def is_space_def)
qed

theorem normalize_no_at_sign_witness:
  "normalize ascii_lower (jstr ''@Bob m@il 4u'') = jstr ''abob mail au'' \<and>
   0x40 \<notin> set (normalize ascii_lower (jstr ''@Bob m@il 4u''))"
proof -
  have "normalize ascii_lower (jstr ''@Bob m@il 4u'') = jstr ''abob mail au''"
    by (simp add: normalize_def eval_string)
  then show ?thesis
    using normalize_no_at_sign [of ascii_lower "jstr ''@Bob m@il 4u''"] by simp
qed

section \<open>Configuration loading\<close>

lemma Number_default: "Number (jstr ''0.85'') = Fin (17 / 20)"
  by (simp add: eval_number eval_string)

lemma split_default_labels:
  "split_list (jstr ''identity_attack,insult,obscene,sexual_explicit,threat,severe_toxicity'')
     = default_labels"
  by (simp add: split_list_def default_labels_def eval_string)

lemma default_config:
  "load_config Map.empty =
     \<lparr>THRESH = Fin (17 / 20), LABELS = default_labels, CORS_ALLOW_ORIGIN = jstr ''*'',
      CUSTOM_WORDS = []\<rparr>"
  by (simp add: load_config_def env_or_def Number_default split_default_labels)
     (simp add: split_list_def eval_string)

lemma js_ge_NaN: "\<not> js_ge x NaN"
  by (cases x) simp_all

lemma js_ge_refl: "a \<noteq> NaN \<Longrightarrow> js_ge a a"
  by (cases a) simp_all

text \<open>
  C6 (as the code has it). When the threshold variable is unset or empty, the threshold is
  the default 0.85. When it is set to a non-empty string \<open>v\<close>, the threshold is
  \<open>Number v\<close> with no fallback: for a \<open>v\<close> that does not parse as a number it is NaN,
  and no score meets a NaN threshold.
\<close>

theorem threshold_from_env:
  "(env ''TOXICITY_THRESHOLD'' = None \<or> env ''TOXICITY_THRESHOLD'' = Some []
      \<longrightarrow> THRESH (load_config env) = Fin (17 / 20)) \<and>
   (env ''TOXICITY_THRESHOLD'' = Some v \<and> v \<noteq> []
      \<longrightarrow> THRESH (load_config env) = Number v) \<and>
   (env ''TOXICITY_THRESHOLD'' = Some v \<and> v \<noteq> [] \<and> Number v = NaN
      \<longrightarrow> THRESH (load_config env) = NaN \<and> \<not> js_ge x (THRESH (load_config env)))"
  by (auto simp: load_config_def env_or_def Number_default js_ge_NaN)

theorem threshold_from_env_witness:
  "[''TOXICITY_THRESHOLD'' \<mapsto> jstr ''85%''] ''TOXICITY_THRESHOLD'' = Some (jstr ''85%'') \<and>
   jstr ''85%'' \<noteq> [] \<and> Number (jstr ''85%'') = NaN \<and>
   THRESH (load_config [''TOXICITY_THRESHOLD'' \<mapsto> jstr ''85%'']) = NaN \<and>
   \<not> js_ge (Fin 1) (THRESH (load_config [''TOXICITY_THRESHOLD'' \<mapsto> jstr ''85%'']))"
proof -
  have n: "Number (jstr ''85%'') = NaN"
    by (simp add: eval_number eval_string)
  have e: "jstr ''85%'' \<noteq> []" by (simp add: jstr_def)
  show ?thesis
    using n e threshold_from_env
      [of "[''TOXICITY_THRESHOLD'' \<mapsto> jstr ''85%'']" "jstr ''85%''" "Fin 1"]
    by simp
qed

text \<open>
  The claim as stated fails: with the variable set to \<^verbatim>\<open>abc\<close>, which is not a number,
  the threshold is NaN and not 0.85.
\<close>

theorem threshold_fallback_counterexample:
  "Number (jstr ''abc'') = NaN \<and>
   THRESH (load_config [''TOXICITY_THRESHOLD'' \<mapsto> jstr ''abc'']) = NaN \<and>
   THRESH (load_config [''TOXICITY_THRESHOLD'' \<mapsto> jstr ''abc'']) \<noteq> Fin (17 / 20)"
proof -
  have "Number (jstr ''abc'') = NaN"
    by (simp add: eval_number eval_string)
  moreover have "jstr ''abc'' \<noteq> []" by (simp add: jstr_def)
  ultimately show ?thesis
    by (simp add: load_config_def env_or_def)
qed

text \<open>
  C7 (as the code has it). When the labels variable is unset or empty, the label list is
  the default six. When it is set to a non-empty string \<open>v\<close>, the label list is \<open>v\<close>
  split on commas, trimmed, without the empty entries, also when nothing is left.
\<close>

theorem labels_from_env:
  "(env ''TOXICITY_LABELS'' = None \<or> env ''TOXICITY_LABELS'' = Some []
      \<longrightarrow> LABELS (load_config env) = default_labels) \<and>
   (env ''TOXICITY_LABELS'' = Some v \<and> v \<noteq> []
      \<longrightarrow> LABELS (load_config env) = filter (\<lambda>w. w \<noteq> []) (map trim (split_comma v)))"
  by (auto simp: load_config_def env_or_def split_default_labels) (simp add: split_list_def)

theorem labels_from_env_witness:
  "[''TOXICITY_LABELS'' \<mapsto> jstr '' insult, ,threat''] ''TOXICITY_LABELS''
     = Some (jstr '' insult, ,threat'') \<and>
   jstr '' insult, ,threat'' \<noteq> [] \<and>
   LABELS (load_config [''TOXICITY_LABELS'' \<mapsto> jstr '' insult, ,threat''])
     = [jstr ''insult'', jstr ''threat'']"
proof -
  have e: "jstr '' insult, ,threat'' \<noteq> []" by (simp add: jstr_def)
  have "filter (\<lambda>w. w \<noteq> []) (map trim (split_comma (jstr '' insult, ,threat'')))
          = [jstr ''insult'', jstr ''threat'']"
    by (simp add: eval_string)
  then show ?thesis
    using e labels_from_env
      [of "[''TOXICITY_LABELS'' \<mapsto> jstr '' insult, ,threat'']" "jstr '' insult, ,threat''"]
    by simp
qed

text \<open>
  The claim as stated fails: with the variable set to \<^verbatim>\<open>,\<close> the split, trimmed and
  filtered list is empty, and the label list is empty, not the default six.
\<close>

theorem labels_fallback_counterexample:
  "filter (\<lambda>w. w \<noteq> []) (map trim (split_comma (jstr '',''))) = [] \<and>
   LABELS (load_config [''TOXICITY_LABELS'' \<mapsto> jstr '','']) = [] \<and>
   LABELS (load_config [''TOXICITY_LABELS'' \<mapsto> jstr '','']) \<noteq> default_labels"
  by (simp add: load_config_def env_or_def split_list_def default_labels_def eval_string)

section \<open>The toxic-hit decision\<close>

text \<open>
  The score map lists array indices first and creates no \<^verbatim>\<open>__proto__\<close> property;
  assigning to a key again keeps its place.
\<close>

lemma set_prop_order:
  "set_prop (set_prop (set_prop (set_prop (set_prop []
       (jstr ''insult'') (JNum (Fin 1)))
       (jstr ''10'') (JNum (Fin 2)))
       (jstr ''__proto__'') (JNum (Fin 3)))
       (jstr ''9'') (JNum (Fin 4)))
       (jstr ''insult'') (JNum (Fin 5))
     = [(jstr ''9'', JNum (Fin 4)), (jstr ''10'', JNum (Fin 2)),
        (jstr ''insult'', JNum (Fin 5))]"
  by (simp add: set_prop_def array_index_def digit_val_def jstr_def)

lemma score_loop_hit:
  "snd (score_loop cfg preds scores hit) \<longleftrightarrow>
     hit \<or> (\<exists>p\<in>set preds. label p \<in> set (LABELS cfg) \<and> js_ge (score_of p) (THRESH cfg))"
  by (induction preds arbitrary: scores hit) (auto simp: Let_def)

text \<open>
  C5. The toxic-hit decision is taken on the raw score of every prediction: after the
  loop \<^verbatim>\<open>toxicHit\<close> is true if and only if it was true before or some prediction has a
  configured label and a raw score \<open>score_of\<close> (not its rounding \<open>to_fixed4\<close>) that is
  \<^verbatim>\<open>>=\<close> the threshold. And a configured label whose score is exactly equal (\<^verbatim>\<open>===\<close>)
  to the threshold is a hit: the comparison is \<^verbatim>\<open>>=\<close>, not \<^verbatim>\<open>>\<close>.
\<close>

theorem threshold_inclusive:
  "(snd (score_loop cfg preds scores hit) \<longleftrightarrow>
      hit \<or> (\<exists>q\<in>set preds. label q \<in> set (LABELS cfg) \<and>
                js_ge (score_of q) (THRESH cfg))) \<and>
   (\<forall>p\<in>set preds. label p \<in> set (LABELS cfg) \<and> js_eq (score_of p) (THRESH cfg)
      \<longrightarrow> snd (score_loop cfg preds scores hit))"
proof
  show "snd (score_loop cfg preds scores hit) \<longleftrightarrow>
      hit \<or> (\<exists>q\<in>set preds. label q \<in> set (LABELS cfg) \<and>
                js_ge (score_of q) (THRESH cfg))"
    by (rule score_loop_hit)
next
  show "\<forall>p\<in>set preds. label p \<in> set (LABELS cfg) \<and> js_eq (score_of p) (THRESH cfg)
      \<longrightarrow> snd (score_loop cfg preds scores hit)"
  proof (intro ballI impI)
    fix p
    assume p: "p \<in> set preds"
      and h: "label p \<in> set (LABELS cfg) \<and> js_eq (score_of p) (THRESH cfg)"
    then have "js_ge (score_of p) (THRESH cfg)"
      by (auto simp: js_eq_def js_ge_refl)
    with p h show "snd (score_loop cfg preds scores hit)"
      unfolding score_loop_hit by blast
  qed
qed

text \<open>
  At the boundary: a score of exactly 0.85 on \<^verbatim>\<open>insult\<close> is a hit under the default
  configuration. Raw against rounded: a score of 0.84996 rounds to 0.8500, which would
  meet the threshold, and is no hit; and with no prediction there is no hit.
\<close>

theorem threshold_inclusive_witness:
  "label (flat_prediction (Fin (17 / 20)) (jstr ''insult''))
     \<in> set (LABELS (load_config Map.empty)) \<and>
   js_eq (score_of (flat_prediction (Fin (17 / 20)) (jstr ''insult'')))
     (THRESH (load_config Map.empty)) \<and>
   snd (score_loop (load_config Map.empty)
     [flat_prediction (Fin (1 / 100)) (jstr ''threat''),
      flat_prediction (Fin (17 / 20)) (jstr ''insult'')] [] False) \<and>
   to_fixed4 (Fin (84996 / 100000)) = Fin (17 / 20) \<and>
   \<not> snd (score_loop (load_config Map.empty)
        [flat_prediction (Fin (84996 / 100000)) (jstr ''insult'')] [] False) \<and>
   \<not> snd (score_loop (load_config Map.empty) [] [] False)"
proof -
  have 1: "label (flat_prediction (Fin (17 / 20)) (jstr ''insult''))
     \<in> set (LABELS (load_config Map.empty))"
    by (simp add: default_config default_labels_def flat_prediction_def)
  have 2: "js_eq (score_of (flat_prediction (Fin (17 / 20)) (jstr ''insult'')))
     (THRESH (load_config Map.empty))"
    by (simp add: default_config flat_prediction_def score_of_def js_eq_def)
  have "flat_prediction (Fin (17 / 20)) (jstr ''insult'')
      \<in> set [flat_prediction (Fin (1 / 100)) (jstr ''threat''),
             flat_prediction (Fin (17 / 20)) (jstr ''insult'')]"
    by simp
  then have 3: "snd (score_loop (load_config Map.empty)
     [flat_prediction (Fin (1 / 100)) (jstr ''threat''),
      flat_prediction (Fin (17 / 20)) (jstr ''insult'')] [] False)"
    using 1 2 threshold_inclusive [of "load_config Map.empty"
      "[flat_prediction (Fin (1 / 100)) (jstr ''threat''),
        flat_prediction (Fin (17 / 20)) (jstr ''insult'')]" "[]" False]
    by blast
  have "\<lfloor>(85001::rat) / 10\<rfloor> = 8500" by (rule floor_unique) simp_all
  then have 4: "to_fixed4 (Fin (84996 / 100000)) = Fin (17 / 20)" by simp
  have "\<not> js_ge (score_of (flat_prediction (Fin (84996 / 100000)) (jstr ''insult'')))
          (THRESH (load_config Map.empty))"
    by (simp add: default_config flat_prediction_def score_of_def)
  then have 5: "\<not> snd (score_loop (load_config Map.empty)
        [flat_prediction (Fin (84996 / 100000)) (jstr ''insult'')] [] False)"
    using threshold_inclusive [of "load_config Map.empty"
      "[flat_prediction (Fin (84996 / 100000)) (jstr ''insult'')]" "[]" False]
    by (simp del: score_loop.simps)
  have 6: "\<not> snd (score_loop (load_config Map.empty) [] [] False)"
    using threshold_inclusive [of "load_config Map.empty" "[]" "[]" False]
    by (simp del: score_loop.simps)
  show ?thesis using 1 2 3 4 5 6 by blast
qed

section \<open>Properties of the handler\<close>

lemma post_not_options: "jstr ''POST'' \<noteq> jstr ''OPTIONS''"
  by (simp add: jstr_def)

lemma getModel_trace: "fst (getModel d cfg (st\<lparr>trace := tr\<rparr>)) = fst (getModel d cfg st)"
  by (simp add: getModel_def Let_def split: option.splits)

lemma handler_post:
  "req_method req = jstr ''POST'' \<Longrightarrow>
   handler d cfg st req =
     (case try_block d cfg st (req_body req) of
        (Inr (code, json), st') \<Rightarrow>
          (\<lparr>status = code, headers = setCors cfg, payload = Some json\<rparr>, st')
      | (Inl err, st') \<Rightarrow>
          (\<lparr>status = 500, headers = setCors cfg,
            payload = Some (json_error ''moderation_failed'')\<rparr>,
           st'\<lparr>trace := trace st' @ [ConsoleError err]\<rparr>))"
  by (simp add: handler_def post_not_options)

lemma handler_post_ok:
  assumes "req_method req = jstr ''POST''"
    and "fst (try_block d cfg st (req_body req)) = Inr (code, json)"
  shows "fst (handler d cfg st req) =
     \<lparr>status = code, headers = setCors cfg, payload = Some json\<rparr>"
  using assms by (cases "try_block d cfg st (req_body req)") (simp add: handler_post)

text \<open>
  The guard \<^verbatim>\<open>req.body || {}\<close> is what makes the destructuring safe: its value is never
  \<^verbatim>\<open>null\<close> or \<^verbatim>\<open>undefined\<close>, so reading a property of it does not throw.
\<close>

lemma body_object_readable: "\<exists>v. get_prop (body_object b) k = Inr v"
  by (cases b) (auto simp: body_object_def)

lemma destructured_total: "\<exists>v. destructured b k = Inr v"
  using body_object_readable [of b "jstr k"] by (auto simp: destructured_def)

lemma try_block_invalid:
  assumes "get_prop (body_object b) (jstr ''text'') = Inr JUndefined \<or>
           (\<exists>v. get_prop (body_object b) (jstr ''text'') = Inr v \<and> typeof v \<noteq> ''string'') \<or>
           get_prop (body_object b) (jstr ''text'') = Inr (JStr [])"
  shows "try_block d cfg st b = (Inr (400, json_error ''text_required''), st)"
proof -
  obtain tv where tv: "destructured b ''text'' = Inr tv"
    and bad: "\<not> truthy tv \<or> typeof tv \<noteq> ''string''"
    using assms by (auto simp: destructured_def or_default_def)
  obtain fu where fu: "destructured b ''fromUser'' = Inr fu"
    using destructured_total by blast
  obtain bn where bn: "destructured b ''botName'' = Inr bn"
    using destructured_total by blast
  show ?thesis using bad by (auto simp: try_block_def tv fu bn)
qed

lemma try_block_valid:
  assumes "destructured b ''text'' = Inr (JStr t)" and "t \<noteq> []"
    and "destructured b ''fromUser'' = Inr fu" and "destructured b ''botName'' = Inr bn"
  shows "try_block d cfg st b =
     (case self_message d bn fu of
        Inl err \<Rightarrow> (Inl err, st)
      | Inr True \<Rightarrow> (Inr (200, skipped_body), st)
      | Inr False \<Rightarrow> detect d cfg st t)"
  using assms by (simp add: try_block_def split: sum.splits bool.splits)

lemma detect_load_fails:
  assumes "fst (getModel d cfg st) = Inl e"
  shows "fst (detect d cfg st t) = Inl e \<and>
         LeoCheck (normalize (toLowerCase d) t) \<in> set (trace (snd (detect d cfg st t)))"
proof -
  define st1 where "st1 = st\<lparr>trace := trace st @ [LeoCheck (normalize (toLowerCase d) t)]\<rparr>"
  obtain m st2 where g: "getModel d cfg st1 = (m, st2)"
    by (cases "getModel d cfg st1")
  have "m = Inl e"
    using g assms getModel_trace [where d=d and cfg=cfg and st=st] unfolding st1_def
    by (metis fst_conv)
  moreover have "LeoCheck (normalize (toLowerCase d) t) \<in> set (trace st2)"
    using g unfolding st1_def by (auto simp: getModel_def Let_def split: option.splits)
  ultimately show ?thesis using g unfolding st1_def by (simp add: detect_def Let_def)
qed

lemma detect_classify_fails:
  assumes "fst (getModel d cfg st) = Inr model"
    and "model [normalize (toLowerCase d) t] = Inl e"
  shows "fst (detect d cfg st t) = Inl e \<and>
         LeoCheck (normalize (toLowerCase d) t) \<in> set (trace (snd (detect d cfg st t)))"
proof -
  define st1 where "st1 = st\<lparr>trace := trace st @ [LeoCheck (normalize (toLowerCase d) t)]\<rparr>"
  obtain m st2 where g: "getModel d cfg st1 = (m, st2)"
    by (cases "getModel d cfg st1")
  have "m = Inr model"
    using g assms(1) getModel_trace [where d=d and cfg=cfg and st=st] unfolding st1_def
    by (metis fst_conv)
  moreover have "LeoCheck (normalize (toLowerCase d) t) \<in> set (trace st2)"
    using g unfolding st1_def by (auto simp: getModel_def Let_def split: option.splits)
  ultimately show ?thesis
    using g assms(2) unfolding st1_def by (simp add: detect_def Let_def)
qed

lemma detect_ok:
  assumes "fst (getModel d cfg st) = Inr model"
    and "model [normalize (toLowerCase d) t] = Inr preds"
  shows "fst (detect d cfg st t) =
     Inr (200,
       JObj [(jstr ''foul'',
              JBool (leo_check d (CUSTOM_WORDS cfg) (normalize (toLowerCase d) t) \<or>
                (\<exists>p\<in>set preds. label p \<in> set (LABELS cfg) \<and>
                   js_ge (score_of p) (THRESH cfg)))),
             (jstr ''input'', JStr t),
             (jstr ''norm'', JStr (normalize (toLowerCase d) t)),
             (jstr ''reasons'',
              JObj [(jstr ''lexiconProfanity'',
                     JBool (leo_check d (CUSTOM_WORDS cfg) (normalize (toLowerCase d) t))),
                    (jstr ''toxicityScores'', JObj (fst (score_loop cfg preds [] False))),
                    (jstr ''threshold'', JNum (THRESH cfg)),
                    (jstr ''labels'', JArr (map JStr (LABELS cfg)))])])"
proof -
  define st1 where "st1 = st\<lparr>trace := trace st @ [LeoCheck (normalize (toLowerCase d) t)]\<rparr>"
  obtain m st2 where g: "getModel d cfg st1 = (m, st2)"
    by (cases "getModel d cfg st1")
  have m: "m = Inr model"
    using g assms(1) getModel_trace [where d=d and cfg=cfg and st=st] unfolding st1_def
    by (metis fst_conv)
  obtain scores hit where l: "score_loop cfg preds [] False = (scores, hit)"
    by (cases "score_loop cfg preds [] False")
  then have "hit \<longleftrightarrow>
      (\<exists>p\<in>set preds. label p \<in> set (LABELS cfg) \<and> js_ge (score_of p) (THRESH cfg))"
    using score_loop_hit [of cfg preds "[]" False] by simp
  then show ?thesis
    using g m l assms(2) unfolding st1_def by (simp add: detect_def Let_def)
qed

lemma self_message_no_bot: "self_message d (JStr []) u = Inr False"
  by (simp add: self_message_def)

lemma calm_loads:
  "fst (getModel calm_deps cfg fresh) = Inr (flat_classifier (Fin (1 / 100)))"
  by (simp add: getModel_def calm_deps_def stub_deps_def fresh_def Let_def)

text \<open>
  C4. A POST request whose body has no \<^verbatim>\<open>text\<close>, or a \<^verbatim>\<open>text\<close> that is not a string,
  or the empty string as \<^verbatim>\<open>text\<close>, is answered with status 400 and the body
  \<^verbatim>\<open>{error: "text_required"}\<close>; the state is unchanged, so neither detector was called
  and nothing was logged.
\<close>

theorem text_required:
  assumes "req_method req = jstr ''POST''"
    and "get_prop (body_object (req_body req)) (jstr ''text'') = Inr JUndefined \<or>
         (\<exists>v. get_prop (body_object (req_body req)) (jstr ''text'') = Inr v \<and>
              typeof v \<noteq> ''string'') \<or>
         get_prop (body_object (req_body req)) (jstr ''text'') = Inr (JStr [])"
  shows "handler d cfg st req =
     (\<lparr>status = 400, headers = setCors cfg,
       payload = Some (json_error ''text_required'')\<rparr>, st)"
  using assms(1) try_block_invalid [OF assms(2)] by (simp add: handler_post)

theorem text_required_witness:
  "req_method numeric_text_request = jstr ''POST'' \<and>
   get_prop (body_object (req_body numeric_text_request)) (jstr ''text'')
     = Inr (JNum (Fin 5)) \<and>
   typeof (JNum (Fin 5)) \<noteq> ''string'' \<and>
   handler calm_deps default_cfg fresh numeric_text_request =
     (\<lparr>status = 400, headers = setCors default_cfg,
       payload = Some (json_error ''text_required'')\<rparr>, fresh)"
proof -
  have 1: "req_method numeric_text_request = jstr ''POST''"
    by (simp add: numeric_text_request_def post_def)
  have 2: "get_prop (body_object (req_body numeric_text_request)) (jstr ''text'')
     = Inr (JNum (Fin 5))"
    by (simp add: numeric_text_request_def post_def body_object_def)
  show ?thesis
    using 1 2 text_required [of numeric_text_request calm_deps default_cfg fresh] by simp
qed

text \<open>
  C10. A POST request whose body is absent (\<^verbatim>\<open>null\<close> or \<^verbatim>\<open>undefined\<close>) raises nothing:
  reading \<^verbatim>\<open>text\<close> off the absent body itself would throw a TypeError, but the handler
  takes the empty object in its place, the test on \<^verbatim>\<open>text\<close> fails, and the answer is
  status 400 with \<^verbatim>\<open>{error: "text_required"}\<close>, not status 500; nothing is logged.
\<close>

theorem absent_body:
  assumes "req_method req = jstr ''POST''"
    and "req_body req = JNull \<or> req_body req = JUndefined"
  shows "get_prop (req_body req) (jstr ''text'') = Inl TypeError \<and>
         body_object (req_body req) = JObj [] \<and>
         handler d cfg st req =
           (\<lparr>status = 400, headers = setCors cfg,
             payload = Some (json_error ''text_required'')\<rparr>, st)"
proof -
  from assms(2) have 1: "get_prop (req_body req) (jstr ''text'') = Inl TypeError"
    by auto
  from assms(2) have 2: "body_object (req_body req) = JObj []"
    by (auto simp: body_object_def)
  then have "try_block d cfg st (req_body req) = (Inr (400, json_error ''text_required''), st)"
    by (intro try_block_invalid) simp
  with assms(1) 1 2 show ?thesis by (simp add: handler_post)
qed

theorem absent_body_witness:
  "req_method (post JNull) = jstr ''POST'' \<and> req_body (post JNull) = JNull \<and>
   get_prop (req_body (post JNull)) (jstr ''text'') = Inl TypeError \<and>
   body_object (req_body (post JNull)) = JObj [] \<and>
   handler calm_deps default_cfg fresh (post JNull) =
     (\<lparr>status = 400, headers = setCors default_cfg,
       payload = Some (json_error ''text_required'')\<rparr>, fresh) \<and>
   status (fst (handler calm_deps default_cfg fresh (post JNull))) \<noteq> 500"
  using absent_body [of "post JNull" calm_deps default_cfg fresh]
  by (simp add: post_def)

text \<open>
  C3 (as the code has it). For every POST request whose \<^verbatim>\<open>text\<close> is a non-empty string,
  and in which \<^verbatim>\<open>fromUser\<close> and \<^verbatim>\<open>botName\<close> are non-empty strings and the lower-case
  \<^verbatim>\<open>fromUser\<close> contains the lower-case \<^verbatim>\<open>botName\<close>, the answer is status 200 with exactly
  \<^verbatim>\<open>{foul: false, skipped: true, reason: "self_message"}\<close>, whatever the text says; the
  state is unchanged, so no detector was called.
\<close>

theorem self_message_skipped:
  assumes "req_method req = jstr ''POST''"
    and "destructured (req_body req) ''text'' = Inr (JStr t)" and "t \<noteq> []"
    and "destructured (req_body req) ''fromUser'' = Inr (JStr f)" and "f \<noteq> []"
    and "destructured (req_body req) ''botName'' = Inr (JStr b)" and "b \<noteq> []"
    and "includes_str (toLowerCase d f) (toLowerCase d b)"
  shows "handler d cfg st req =
     (\<lparr>status = 200, headers = setCors cfg, payload = Some skipped_body\<rparr>, st)"
proof -
  have "self_message d (JStr b) (JStr f) = Inr True"
    using assms(5,7,8) by (simp add: self_message_def)
  then have "try_block d cfg st (req_body req) = (Inr (200, skipped_body), st)"
    by (simp add: try_block_valid [OF assms(2,3,4,6)])
  with assms(1) show ?thesis by (simp add: handler_post)
qed

lemma bot_request_fields:
  "req_method bot_request = jstr ''POST'' \<and>
   destructured (req_body bot_request) ''text'' = Inr (JStr (jstr ''You are such an idiot.'')) \<and>
   destructured (req_body bot_request) ''fromUser'' = Inr (JStr (jstr ''The-ModBot'')) \<and>
   destructured (req_body bot_request) ''botName'' = Inr (JStr (jstr ''modbot''))"
  by (simp add: bot_request_def post_def destructured_def body_object_def or_default_def
      jstr_def)

lemma mod_bot_includes:
  "includes_str (toLowerCase calm_deps (jstr ''The-ModBot''))
     (toLowerCase calm_deps (jstr ''modbot''))"
  by (simp add: calm_deps_def stub_deps_def jstr_def ascii_lower_def)

theorem self_message_skipped_witness:
  "req_method bot_request = jstr ''POST'' \<and>
   destructured (req_body bot_request) ''text'' = Inr (JStr (jstr ''You are such an idiot.'')) \<and>
   destructured (req_body bot_request) ''fromUser'' = Inr (JStr (jstr ''The-ModBot'')) \<and>
   destructured (req_body bot_request) ''botName'' = Inr (JStr (jstr ''modbot'')) \<and>
   includes_str (toLowerCase calm_deps (jstr ''The-ModBot''))
     (toLowerCase calm_deps (jstr ''modbot'')) \<and>
   handler calm_deps default_cfg fresh bot_request =
     (\<lparr>status = 200, headers = setCors default_cfg, payload = Some skipped_body\<rparr>, fresh)"
proof -
  have ne: "jstr ''You are such an idiot.'' \<noteq> []" "jstr ''The-ModBot'' \<noteq> []"
    "jstr ''modbot'' \<noteq> []"
    by (simp_all add: jstr_def)
  show ?thesis
    using bot_request_fields mod_bot_includes
      self_message_skipped [of bot_request "jstr ''You are such an idiot.''"
        "jstr ''The-ModBot''" "jstr ''modbot''" calm_deps default_cfg fresh]
      ne
    by simp
qed

text \<open>
  The claim as stated fails: validation comes first. In this POST request
  \<^verbatim>\<open>fromUser\<close> and \<^verbatim>\<open>botName\<close> are non-empty strings and the first contains the second
  in lower case, but \<^verbatim>\<open>text\<close> is the empty string, and the answer is status 400 with
  \<^verbatim>\<open>{error: "text_required"}\<close>.
\<close>

theorem self_message_counterexample:
  "req_method bot_request_empty_text = jstr ''POST'' \<and>
   destructured (req_body bot_request_empty_text) ''fromUser''
     = Inr (JStr (jstr ''The-ModBot'')) \<and>
   destructured (req_body bot_request_empty_text) ''botName''
     = Inr (JStr (jstr ''modbot'')) \<and>
   includes_str (toLowerCase calm_deps (jstr ''The-ModBot''))
     (toLowerCase calm_deps (jstr ''modbot'')) \<and>
   fst (handler calm_deps default_cfg fresh bot_request_empty_text) =
     \<lparr>status = 400, headers = setCors default_cfg,
      payload = Some (json_error ''text_required'')\<rparr> \<and>
   fst (handler calm_deps default_cfg fresh bot_request_empty_text) \<noteq>
     \<lparr>status = 200, headers = setCors default_cfg, payload = Some skipped_body\<rparr>"
proof -
  have "try_block calm_deps default_cfg fresh (req_body bot_request_empty_text) =
      (Inr (400, json_error ''text_required''), fresh)"
    by (rule try_block_invalid)
       (simp add: bot_request_empty_text_def post_def body_object_def)
  then have "fst (handler calm_deps default_cfg fresh bot_request_empty_text) =
     \<lparr>status = 400, headers = setCors default_cfg,
      payload = Some (json_error ''text_required'')\<rparr>"
    by (simp add: handler_post bot_request_empty_text_def post_def)
  moreover have
    "destructured (req_body bot_request_empty_text) ''fromUser''
       = Inr (JStr (jstr ''The-ModBot'')) \<and>
     destructured (req_body bot_request_empty_text) ''botName''
       = Inr (JStr (jstr ''modbot''))"
    by (simp add: bot_request_empty_text_def post_def destructured_def body_object_def
        or_default_def jstr_def)
  ultimately show ?thesis
    using mod_bot_includes by (simp add: bot_request_empty_text_def post_def)
qed

lemma insulting_request_fields:
  "req_method insulting_request = jstr ''POST'' \<and>
   destructured (req_body insulting_request) ''text''
     = Inr (JStr (jstr ''You are such an idiot.'')) \<and>
   destructured (req_body insulting_request) ''fromUser'' = Inr (JStr []) \<and>
   destructured (req_body insulting_request) ''botName'' = Inr (JStr [])"
  by (simp add: insulting_request_def post_def destructured_def body_object_def
      or_default_def jstr_def)

lemma polite_request_fields:
  "req_method polite_request = jstr ''POST'' \<and>
   destructured (req_body polite_request) ''text'' = Inr (JStr (jstr ''h3ll0 w0rld'')) \<and>
   destructured (req_body polite_request) ''fromUser'' = Inr (JStr []) \<and>
   destructured (req_body polite_request) ''botName'' = Inr (JStr [])"
  by (simp add: polite_request_def post_def destructured_def body_object_def
      or_default_def jstr_def)

lemma normalize_insult:
  "normalize ascii_lower (jstr ''You are such an idiot.'') = jstr ''you are such an idiot''"
  by (simp add: normalize_def eval_string)

lemma normalize_polite:
  "normalize ascii_lower (jstr ''h3ll0 w0rld'') = jstr ''hello world''"
  by (simp add: normalize_def eval_string)

text \<open>
  C1. For every POST request that passes validation and the self-message filter, and
  whose text the classifier classifies, the answer has status 200 and its field
  \<^verbatim>\<open>foul\<close> is true if and only if the lexicon check on the normalized text is true or some
  prediction has a label of the configured list and a score that meets the threshold.
\<close>

theorem foul_iff_either_detector:
  assumes "req_method req = jstr ''POST''"
    and "destructured (req_body req) ''text'' = Inr (JStr t)" and "t \<noteq> []"
    and "destructured (req_body req) ''fromUser'' = Inr fromUser"
    and "destructured (req_body req) ''botName'' = Inr botName"
    and "self_message d botName fromUser = Inr False"
    and "fst (getModel d cfg st) = Inr model"
    and "model [normalize (toLowerCase d) t] = Inr preds"
  shows "status (fst (handler d cfg st req)) = 200 \<and>
         response_field (fst (handler d cfg st req)) ''foul'' =
           JBool (leo_check d (CUSTOM_WORDS cfg) (normalize (toLowerCase d) t) \<or>
                  (\<exists>p\<in>set preds. label p \<in> set (LABELS cfg) \<and>
                     js_ge (score_of p) (THRESH cfg)))"
proof -
  have "try_block d cfg st (req_body req) = detect d cfg st t"
    using assms(6) by (simp add: try_block_valid [OF assms(2,3,4,5)])
  then show ?thesis
    using assms(1) detect_ok [OF assms(7,8)]
    by (cases "detect d cfg st t") (simp add: handler_post response_field_def)
qed

theorem foul_iff_either_detector_witness:
  "req_method insulting_request = jstr ''POST'' \<and>
   destructured (req_body insulting_request) ''text''
     = Inr (JStr (jstr ''You are such an idiot.'')) \<and>
   self_message calm_deps (JStr []) (JStr []) = Inr False \<and>
   fst (getModel calm_deps default_cfg fresh) = Inr (flat_classifier (Fin (1 / 100))) \<and>
   leo_check calm_deps (CUSTOM_WORDS default_cfg)
     (normalize (toLowerCase calm_deps) (jstr ''You are such an idiot.'')) \<and>
   status (fst (handler calm_deps default_cfg fresh insulting_request)) = 200 \<and>
   response_field (fst (handler calm_deps default_cfg fresh insulting_request)) ''foul''
     = JBool True"
proof -
  have ne: "jstr ''You are such an idiot.'' \<noteq> []" by (simp add: jstr_def)
  have sm: "self_message calm_deps (JStr []) (JStr []) = Inr False"
    by (rule self_message_no_bot)
  have cl: "flat_classifier (Fin (1 / 100))
      [normalize (toLowerCase calm_deps) (jstr ''You are such an idiot.'')]
      = Inr (map (flat_prediction (Fin (1 / 100))) default_labels)"
    by (simp add: flat_classifier_def)
  have lx: "leo_check calm_deps (CUSTOM_WORDS default_cfg)
     (normalize (toLowerCase calm_deps) (jstr ''You are such an idiot.''))"
    by (simp add: calm_deps_def stub_deps_def normalize_insult stub_lexicon_def)
       (simp add: jstr_def)
  have f: "destructured (req_body insulting_request) ''fromUser'' = Inr (JStr [])"
    and b: "destructured (req_body insulting_request) ''botName'' = Inr (JStr [])"
    using insulting_request_fields by simp_all
  show ?thesis
    using insulting_request_fields calm_loads [of default_cfg] lx sm
      foul_iff_either_detector [OF _ _ ne f b sm calm_loads cl]
    by simp
qed

text \<open>
  A clean text with a calm classifier: \<^verbatim>\<open>h3ll0 w0rld\<close> is normalized to
  \<^verbatim>\<open>hello world\<close> and is not foul.
\<close>

lemma clean_text_is_not_foul:
  "response_field (fst (handler calm_deps default_cfg fresh polite_request)) ''foul''
     = JBool False \<and>
   response_field (fst (handler calm_deps default_cfg fresh polite_request)) ''norm''
     = JStr (jstr ''hello world'')"
proof -
  have ne: "jstr ''h3ll0 w0rld'' \<noteq> []" by (simp add: jstr_def)
  have lc: "toLowerCase calm_deps = ascii_lower"
    by (simp add: calm_deps_def stub_deps_def)
  have cl: "flat_classifier (Fin (1 / 100)) [normalize (toLowerCase calm_deps) (jstr ''h3ll0 w0rld'')]
      = Inr (map (flat_prediction (Fin (1 / 100))) default_labels)"
    by (simp add: flat_classifier_def)
  have lx: "\<not> leo_check calm_deps (CUSTOM_WORDS default_cfg) (jstr ''hello world'')"
    by (simp add: calm_deps_def stub_deps_def stub_lexicon_def default_cfg_def default_config)
       (simp add: jstr_def)
  have hit: "\<not> (\<exists>p\<in>set (map (flat_prediction (Fin (1 / 100))) default_labels).
      label p \<in> set (LABELS default_cfg) \<and> js_ge (score_of p) (THRESH default_cfg))"
    by (simp add: default_cfg_def default_config flat_prediction_def score_of_def)
  have keys: "jstr ''norm'' \<noteq> jstr ''foul''" "jstr ''norm'' \<noteq> jstr ''input''"
    by (simp_all add: jstr_def)
  have "try_block calm_deps default_cfg fresh (req_body polite_request)
      = detect calm_deps default_cfg fresh (jstr ''h3ll0 w0rld'')"
    using polite_request_fields ne
    by (simp add: try_block_valid [of _ "jstr ''h3ll0 w0rld''" "JStr []" "JStr []"]
        self_message_no_bot)
  then have "fst (try_block calm_deps default_cfg fresh (req_body polite_request))
      = fst (detect calm_deps default_cfg fresh (jstr ''h3ll0 w0rld''))"
    by simp
  also note detect_ok [OF calm_loads [of default_cfg] cl]
  finally have "payload (fst (handler calm_deps default_cfg fresh polite_request)) =
      Some (JObj [(jstr ''foul'', JBool False),
             (jstr ''input'', JStr (jstr ''h3ll0 w0rld'')),
             (jstr ''norm'', JStr (jstr ''hello world'')),
             (jstr ''reasons'',
              JObj [(jstr ''lexiconProfanity'', JBool False),
                    (jstr ''toxicityScores'',
                     JObj (fst (score_loop default_cfg
                       (map (flat_prediction (Fin (1 / 100))) default_labels) [] False))),
                    (jstr ''threshold'', JNum (THRESH default_cfg)),
                    (jstr ''labels'', JArr (map JStr (LABELS default_cfg)))])])"
    using polite_request_fields lx hit
    by (simp add: handler_post_ok lc normalize_polite del: score_loop.simps)
  then show ?thesis
    using keys by (simp add: response_field_def del: score_loop.simps)
qed

text \<open>
  C9. When the classifier fails to load or to classify, or the conversion of
  \<^verbatim>\<open>fromUser\<close> or \<^verbatim>\<open>botName\<close> to a string throws, a valid POST request is answered with
  status 500 and exactly \<^verbatim>\<open>{error: "moderation_failed"}\<close>: the answer does not depend on
  the error, which goes to \<^verbatim>\<open>console.error\<close> alone, and it carries no verdict of the
  lexicon, although the lexicon check has run before the classifier is asked.
\<close>

theorem failure_is_generic_500:
  assumes "req_method req = jstr ''POST''"
    and "destructured (req_body req) ''text'' = Inr (JStr t)" and "t \<noteq> []"
    and "destructured (req_body req) ''fromUser'' = Inr fromUser"
    and "destructured (req_body req) ''botName'' = Inr botName"
    and "self_message d botName fromUser = Inl e \<or>
         self_message d botName fromUser = Inr False \<and>
         (fst (getModel d cfg st) = Inl e \<or>
          (\<exists>model. fst (getModel d cfg st) = Inr model \<and>
             model [normalize (toLowerCase d) t] = Inl e))"
  shows "fst (handler d cfg st req) =
           \<lparr>status = 500, headers = setCors cfg,
            payload = Some (json_error ''moderation_failed'')\<rparr> \<and>
         last (trace (snd (handler d cfg st req))) = ConsoleError e \<and>
         (self_message d botName fromUser = Inr False \<longrightarrow>
          LeoCheck (normalize (toLowerCase d) t) \<in> set (trace (snd (handler d cfg st req))))"
proof -
  from assms(6) consider (conv) "self_message d botName fromUser = Inl e"
    | (det) "self_message d botName fromUser = Inr False" "fst (detect d cfg st t) = Inl e"
        "LeoCheck (normalize (toLowerCase d) t) \<in> set (trace (snd (detect d cfg st t)))"
    using detect_load_fails detect_classify_fails by blast
  then show ?thesis
  proof cases
    case conv
    then have "try_block d cfg st (req_body req) = (Inl e, st)"
      by (simp add: try_block_valid [OF assms(2,3,4,5)])
    with assms(1) conv show ?thesis by (simp add: handler_post)
  next
    case det
    then have "try_block d cfg st (req_body req) = detect d cfg st t"
      by (simp add: try_block_valid [OF assms(2,3,4,5)])
    with assms(1) det show ?thesis
      by (cases "detect d cfg st t") (simp add: handler_post)
  qed
qed

theorem failure_is_generic_500_witness:
  "req_method polite_request = jstr ''POST'' \<and>
   destructured (req_body polite_request) ''text'' = Inr (JStr (jstr ''h3ll0 w0rld'')) \<and>
   self_message unloadable_deps (JStr []) (JStr []) = Inr False \<and>
   fst (getModel unloadable_deps default_cfg fresh)
     = Inl (Thrown (jstr ''model download failed'')) \<and>
   fst (handler unloadable_deps default_cfg fresh polite_request) =
     \<lparr>status = 500, headers = setCors default_cfg,
      payload = Some (json_error ''moderation_failed'')\<rparr> \<and>
   last (trace (snd (handler unloadable_deps default_cfg fresh polite_request)))
     = ConsoleError (Thrown (jstr ''model download failed''))"
proof -
  have ne: "jstr ''h3ll0 w0rld'' \<noteq> []" by (simp add: jstr_def)
  have sm: "self_message unloadable_deps (JStr []) (JStr []) = Inr False"
    by (rule self_message_no_bot)
  have ld: "fst (getModel unloadable_deps default_cfg fresh)
     = Inl (Thrown (jstr ''model download failed''))"
    by (simp add: getModel_def unloadable_deps_def stub_deps_def fresh_def Let_def)
  have f: "destructured (req_body polite_request) ''fromUser'' = Inr (JStr [])"
    and b: "destructured (req_body polite_request) ''botName'' = Inr (JStr [])"
    using polite_request_fields by simp_all
  show ?thesis
    using polite_request_fields ld sm
      failure_is_generic_500 [of polite_request "jstr ''h3ll0 w0rld''" "JStr []" "JStr []"
        unloadable_deps "Thrown (jstr ''model download failed'')" default_cfg fresh,
        OF _ _ ne f b]
    by simp
qed

end
